theory Spec2Isabelle
  imports Complex_Main "HOL-Library.Sublist"
begin

section \<open>Python values and strings\<close>

text \<open>
  Paths, URLs, header values and file contents are HOL strings: a character
  is a code point below 256. A \<^verbatim>\<open>str\<close> held by an option, a chat message or a
  response chunk is a list of code points of any size, since \<^verbatim>\<open>int\<close> and
  \<^verbatim>\<open>str.strip\<close> read digits and whitespace of every script.
\<close>

type_synonym unicode = "nat list"

definition ustr :: "string \<Rightarrow> unicode" where
  "ustr s = map of_char s"

text \<open>
  Exceptions. Each constructor stands for the class and its subclasses:
  \<open>URLError\<close> is \<^verbatim>\<open>urllib.error.URLError\<close>, \<open>OSError\<close> any other \<^verbatim>\<open>OSError\<close>,
  \<open>Exception\<close> any exception that belongs to none of the classes named here.
  The argument is the text \<^verbatim>\<open>str(e)\<close> gives.
\<close>

datatype py_error =
    TypeError unicode
  | ValueError unicode
  | OverflowError unicode
  | ZeroDivisionError unicode
  | AttributeError unicode
  | OSError unicode
  | URLError unicode
  | Exception unicode

fun error_text :: "py_error \<Rightarrow> unicode" where
  "error_text (TypeError s) = s"
| "error_text (ValueError s) = s"
| "error_text (OverflowError s) = s"
| "error_text (ZeroDivisionError s) = s"
| "error_text (AttributeError s) = s"
| "error_text (OSError s) = s"
| "error_text (URLError s) = s"
| "error_text (Exception s) = s"


text \<open>
  A \<^verbatim>\<open>float\<close>: a finite number, an infinity or a NaN. Every rational stands
  for a finite value here, which is more than the binary64 values; the two
  zeros are one.
\<close>

datatype pyfloat = Finite rat | PosInf | NegInf | NaN

text \<open>
  The values an option can hold. \<open>PyObject t r\<close> is an object of any other
  type, given by what the code below can observe of it: its truth value \<open>t\<close>
  and the outcome \<open>r\<close> of \<^verbatim>\<open>int\<close> on it.
\<close>

datatype pyval =
    PyNone
  | PyBool bool
  | PyInt int
  | PyFloat pyfloat
  | PyStr unicode
  | PyBytes string
  | PyObject bool "py_error + int"

text \<open>The truth value of a Python object, as \<^verbatim>\<open>if x\<close> and \<^verbatim>\<open>x or y\<close> test it.\<close>

fun truthy :: "pyval \<Rightarrow> bool" where
  "truthy PyNone = False"
| "truthy (PyBool b) = b"
| "truthy (PyInt n) = (n \<noteq> 0)"
| "truthy (PyFloat x) = (x \<noteq> Finite 0)"
| "truthy (PyStr s) = (s \<noteq> [])"
| "truthy (PyBytes s) = (s \<noteq> [])"
| "truthy (PyObject t r) = t"

text \<open>
  \<^verbatim>\<open>Py_UNICODE_ISSPACE\<close>, the whitespace of \<^verbatim>\<open>str.strip\<close> and \<^verbatim>\<open>str.isspace\<close>:
  TAB to CR, FS to US, space, NEL, NBSP, U+1680, U+2000 to U+200A, U+2028,
  U+2029, U+202F, U+205F and U+3000.
\<close>

definition unicode_isspace :: "nat \<Rightarrow> bool" where
  "unicode_isspace ch =
     (ch \<in> {9, 10, 11, 12, 13, 28, 29, 30, 31, 32, 133, 160, 5760, 8232, 8233, 8239, 8287, 12288}
      \<or> (8192 \<le> ch \<and> ch \<le> 8202))"

definition is_space :: "char \<Rightarrow> bool" where
  "is_space c = unicode_isspace (of_char c)"

text \<open>\<^verbatim>\<open>str.strip()\<close>, on a string of either kind\<close>

definition strip :: "string \<Rightarrow> string" where
  "strip s = rev (dropWhile is_space (rev (dropWhile is_space s)))"

definition ustrip :: "unicode \<Rightarrow> unicode" where
  "ustrip s = rev (dropWhile unicode_isspace (rev (dropWhile unicode_isspace s)))"

text \<open>
  \<^verbatim>\<open>str.lower()\<close> below code point 256: A to Z and the capital letters U+00C0 to
  U+00DE (the multiplication sign U+00D7 is no letter) move up by 32.
\<close>

definition lower_char :: "char \<Rightarrow> char" where
  "lower_char c =
     (if (65 \<le> (of_char c :: nat) \<and> (of_char c :: nat) \<le> 90)
         \<or> (192 \<le> (of_char c :: nat) \<and> (of_char c :: nat) \<le> 222 \<and> (of_char c :: nat) \<noteq> 215)
      then char_of ((of_char c :: nat) + 32) else c)"

definition lower :: "string \<Rightarrow> string" where
  "lower s = map lower_char s"

text \<open>\<^verbatim>\<open>s.startswith(p)\<close> and \<^verbatim>\<open>s.endswith(p)\<close>\<close>

definition startswith :: "string \<Rightarrow> string \<Rightarrow> bool" where
  "startswith s p = (take (length p) s = p)"

definition endswith :: "string \<Rightarrow> string \<Rightarrow> bool" where
  "endswith s p = (length p \<le> length s \<and> drop (length s - length p) s = p)"

subsection \<open>\<^verbatim>\<open>int(x)\<close>\<close>

text \<open>
  What \<^verbatim>\<open>int\<close> takes from the interpreter: the limit on the number of digits of
  a decimal string (\<^verbatim>\<open>sys.get_int_max_str_digits()\<close>, 4300 unless changed, 0 for
  no limit and in versions without the limit), and the decimal value its
  Unicode database gives to a code point outside ASCII
  (\<^verbatim>\<open>Py_UNICODE_TODECIMAL\<close>).
\<close>

record interpreter =
  int_max_str_digits :: nat
  to_decimal :: "nat \<Rightarrow> nat option"

text \<open>\<^verbatim>\<open>Py_ISSPACE\<close>, the whitespace the number parser skips: TAB to CR and space.\<close>

definition py_isspace :: "char \<Rightarrow> bool" where
  "py_isspace c = ((of_char c :: nat) \<in> {9, 10, 11, 12, 13, 32})"

definition digit_val :: "char \<Rightarrow> int option" where
  "digit_val c =
     (if 48 \<le> (of_char c :: nat) \<and> (of_char c :: nat) \<le> 57
      then Some (int (of_char c) - 48) else None)"

text \<open>
  Decimal digits, where one underscore may stand between two digits. The
  accumulator is the value of the digits read so far.
\<close>

fun digits_from :: "int \<Rightarrow> string \<Rightarrow> int option" where
  "digits_from acc [] = None"
| "digits_from acc [c] =
     (case digit_val c of None \<Rightarrow> None | Some d \<Rightarrow> Some (10 * acc + d))"
| "digits_from acc (c # c' # cs) =
     (case digit_val c of
        None \<Rightarrow> None
      | Some d \<Rightarrow>
          if c' = CHR ''_'' then digits_from (10 * acc + d) cs
          else digits_from (10 * acc + d) (c' # cs))"

text \<open>
  \<^verbatim>\<open>PyLong_FromString\<close> in base 10 on a whole buffer: whitespace is skipped at
  both ends, one sign is allowed, then come the digits. More than 640 digits
  are refused when they exceed a positive limit. \<open>None\<close> stands for the
  \<^verbatim>\<open>ValueError\<close>.
\<close>

definition long_from_string :: "nat \<Rightarrow> string \<Rightarrow> int option" where
  "long_from_string max_str_digits s =
     (case rev (dropWhile py_isspace (rev (dropWhile py_isspace s))) of
        [] \<Rightarrow> None
      | c # cs \<Rightarrow>
          let ds = (if c = CHR ''-'' \<or> c = CHR ''+'' then cs else c # cs);
              digits = length (filter (\<lambda>d. d \<noteq> CHR ''_'') ds)
          in case digits_from 0 ds of
               None \<Rightarrow> None
             | Some n \<Rightarrow>
                 if 640 < digits \<and> 0 < max_str_digits \<and> max_str_digits < digits then None
                 else Some (if c = CHR ''-'' then - n else n))"

text \<open>
  \<^verbatim>\<open>_PyUnicode_TransformDecimalAndSpaceToASCII\<close>: an ASCII string is taken as it
  is. Otherwise a code point below 127 is kept, whitespace becomes a space, a
  decimal digit of another script becomes its ASCII digit, and the first code
  point that is none of these ends the text with a question mark.
\<close>

fun transform_decimal_and_space :: "interpreter \<Rightarrow> unicode \<Rightarrow> string" where
  "transform_decimal_and_space py [] = []"
| "transform_decimal_and_space py (ch # rest) =
     (if ch < 127 then char_of ch # transform_decimal_and_space py rest
      else if unicode_isspace ch then CHR '' '' # transform_decimal_and_space py rest
      else (case to_decimal py ch of
              None \<Rightarrow> ''?''
            | Some d \<Rightarrow>
                if d < 10 then char_of (48 + d) # transform_decimal_and_space py rest
                else ''?''))"

definition to_ascii :: "interpreter \<Rightarrow> unicode \<Rightarrow> string" where
  "to_ascii py s =
     (if list_all (\<lambda>ch. ch < 128) s then map char_of s
      else transform_decimal_and_space py s)"

text \<open>\<^verbatim>\<open>int(s)\<close> for a \<^verbatim>\<open>str\<close>, for a string below code point 256, and for \<^verbatim>\<open>bytes\<close>\<close>

definition int_of_unicode :: "interpreter \<Rightarrow> unicode \<Rightarrow> int option" where
  "int_of_unicode py s = long_from_string (int_max_str_digits py) (to_ascii py s)"

definition int_of_string :: "interpreter \<Rightarrow> string \<Rightarrow> int option" where
  "int_of_string py s = int_of_unicode py (ustr s)"

definition int_of_bytes :: "interpreter \<Rightarrow> string \<Rightarrow> int option" where
  "int_of_bytes py s = long_from_string (int_max_str_digits py) s"

text \<open>\<^verbatim>\<open>int(x)\<close> for a finite float cuts the fraction off, towards zero.\<close>

definition trunc :: "rat \<Rightarrow> int" where
  "trunc q = (if 0 \<le> q then \<lfloor>q\<rfloor> else \<lceil>q\<rceil>)"

text \<open>
  \<^verbatim>\<open>int(x)\<close>: \<^verbatim>\<open>TypeError\<close> for \<^verbatim>\<open>None\<close>, \<^verbatim>\<open>ValueError\<close> for text that is no number
  and for a NaN, \<^verbatim>\<open>OverflowError\<close> for an infinity. The texts of the errors are
  not modelled.
\<close>

fun py_int :: "interpreter \<Rightarrow> pyval \<Rightarrow> py_error + int" where
  "py_int py PyNone = Inl (TypeError [])"
| "py_int py (PyBool b) = Inr (if b then 1 else 0)"
| "py_int py (PyInt n) = Inr n"
| "py_int py (PyFloat (Finite q)) = Inr (trunc q)"
| "py_int py (PyFloat PosInf) = Inl (OverflowError [])"
| "py_int py (PyFloat NegInf) = Inl (OverflowError [])"
| "py_int py (PyFloat NaN) = Inl (ValueError [])"
| "py_int py (PyStr s) =
     (case int_of_unicode py s of None \<Rightarrow> Inl (ValueError []) | Some n \<Rightarrow> Inr n)"
| "py_int py (PyBytes s) =
     (case int_of_bytes py s of None \<Rightarrow> Inl (ValueError []) | Some n \<Rightarrow> Inr n)"
| "py_int py (PyObject t r) = r"

section \<open>The host's configuration store\<close>




section \<open>Context window of the preloaded model\<close>



section \<open>Paths (\<^verbatim>\<open>posixpath\<close>)\<close>

text \<open>
  The path functions of the standard library on a POSIX system, where
  \<^verbatim>\<open>os.sep\<close> is the slash. \<^verbatim>\<open>s.split("/")\<close> cuts at every slash and keeps the
  empty pieces; \<^verbatim>\<open>"/".join(xs)\<close> is its inverse.
\<close>

fun split_on :: "char \<Rightarrow> string \<Rightarrow> string list" where
  "split_on c [] = [[]]"
| "split_on c (x # xs) =
     (if x = c then [] # split_on c xs
      else (case split_on c xs of [] \<Rightarrow> [[x]] | y # ys \<Rightarrow> (x # y) # ys))"

fun join_sep :: "string list \<Rightarrow> string" where
  "join_sep [] = []"
| "join_sep [x] = x"
| "join_sep (x # y # ys) = x @ CHR ''/'' # join_sep (y # ys)"

text \<open>\<^verbatim>\<open>os.path.join(a, b)\<close>\<close>

definition join :: "string \<Rightarrow> string \<Rightarrow> string" where
  "join a b =
     (if startswith b ''/'' then b
      else if a = [] \<or> endswith a ''/'' then a @ b
      else a @ ''/'' @ b)"

text \<open>
  One round of the loop of \<^verbatim>\<open>os.path.normpath\<close>: empty and "." components are
  skipped, ".." removes the component before it unless there is none to
  remove (it is then kept in a relative path and dropped at the root).
\<close>

definition norm_step :: "nat \<Rightarrow> string list \<Rightarrow> string \<Rightarrow> string list" where
  "norm_step initial_slashes new_comps cmp =
     (if cmp = [] \<or> cmp = ''.'' then new_comps
      else if cmp \<noteq> ''..'' \<or> (initial_slashes = 0 \<and> new_comps = [])
              \<or> (new_comps \<noteq> [] \<and> last new_comps = ''..'')
      then new_comps @ [cmp]
      else if new_comps \<noteq> [] then butlast new_comps
      else new_comps)"

definition initial_slashes_of :: "string \<Rightarrow> nat" where
  "initial_slashes_of path =
     (if startswith path ''/''
      then (if startswith path ''//'' \<and> \<not> startswith path ''///'' then 2 else 1)
      else 0)"

definition normpath :: "string \<Rightarrow> string" where
  "normpath path =
     (if path = [] then ''.''
      else
        let initial_slashes = initial_slashes_of path;
            comps = foldl (norm_step initial_slashes) [] (split_on CHR ''/'' path);
            p = replicate initial_slashes CHR ''/'' @ join_sep comps
        in if p = [] then ''.'' else p)"

text \<open>\<^verbatim>\<open>os.path.abspath(path)\<close>, with the current directory as an argument.\<close>

definition abspath :: "string \<Rightarrow> string \<Rightarrow> string" where
  "abspath cwd_now path =
     normpath (if startswith path ''/'' then path else join cwd_now path)"

text \<open>\<^verbatim>\<open>os.path.dirname(p)\<close>: the text before the last slash, without trailing slashes
  unless it consists of slashes only.\<close>

definition dirname :: "string \<Rightarrow> string" where
  "dirname p =
     (let head = rev (dropWhile (\<lambda>c. c \<noteq> CHR ''/'') (rev p))
      in if head \<noteq> [] \<and> head \<noteq> replicate (length head) CHR ''/''
         then rev (dropWhile (\<lambda>c. c = CHR ''/'') (rev head))
         else head)"

section \<open>The world outside the program\<close>

text \<open>
  The file system is a map from path strings to nodes, as the operating
  system answers for each string. A regular file has a modification time and
  a content; a directory has the list \<^verbatim>\<open>os.listdir\<close> returns, or none when it
  cannot be read. Times of directories are not modelled. \<open>denied\<close> holds the
  paths on which the system refuses a change (\<^verbatim>\<open>PermissionError\<close>).
  \<^verbatim>\<open>os.makedirs\<close> is the library's and the system's work: \<open>os_makedirs\<close> gives
  its outcome on a file system, an error or the file system after it.
  \<open>write_refused p n\<close> is the error of a write that would bring the file \<open>p\<close>
  to \<open>n\<close> bytes, if the system refuses it (a full disk). The network is the
  function \<open>net\<close> from a URL to what \<^verbatim>\<open>urlopen\<close> gives; \<open>requests\<close> records every
  URL the program has tried to open, \<open>progress\<close> every call of a progress
  callback with its three arguments. A response has the value of its
  \<^verbatim>\<open>Content-Length\<close> header if there is one, the bytes of its body, and the
  error that ends the transfer after these bytes, if any.
\<close>

datatype node = RegFile int string | Directory "string list option"

record response =
  content_length :: "string option"
  body :: string
  read_error :: "py_error option"

record world =
  nodes :: "string \<rightharpoonup> node"
  denied :: "string set"
  clock :: int
  cwd :: string
  home :: string
  thonny_user_dir :: string
  environ :: "string \<rightharpoonup> string"
  python :: interpreter
  os_makedirs :: "(string \<rightharpoonup> node) \<Rightarrow> string \<Rightarrow> py_error + (string \<rightharpoonup> node)"
  write_refused :: "string \<Rightarrow> nat \<Rightarrow> py_error option"
  net :: "string \<Rightarrow> py_error + response"
  requests :: "string list"
  progress :: "(rat \<times> rat \<times> rat) list"

definition isfile :: "world \<Rightarrow> string \<Rightarrow> bool" where
  "isfile w p = (case nodes w p of Some (RegFile t c) \<Rightarrow> True | _ \<Rightarrow> False)"

definition isdir :: "world \<Rightarrow> string \<Rightarrow> bool" where
  "isdir w p = (case nodes w p of Some (Directory l) \<Rightarrow> True | _ \<Rightarrow> False)"

text \<open>\<^verbatim>\<open>os.remove(p)\<close>: removes a regular file, raises otherwise.\<close>

definition os_remove :: "world \<Rightarrow> string \<Rightarrow> py_error + world" where
  "os_remove w p =
     (if \<not> isfile w p then Inl (OSError (ustr ''not a file''))
      else if p \<in> denied w then Inl (OSError (ustr ''permission denied''))
      else Inr (w\<lparr>nodes := (nodes w)(p := None)\<rparr>))"

section \<open>\<^verbatim>\<open>llama_download.py\<close>: the models directory\<close>

definition get_models_dir :: "world \<Rightarrow> string" where
  "get_models_dir w = join (thonny_user_dir w) ''models''"

definition delete_model :: "world \<Rightarrow> string \<Rightarrow> (py_error + bool) \<times> world" where
  "delete_model w path0 =
     (let models_dir = get_models_dir w;
          path = normpath (abspath (cwd w) path0);
          models_dir_abs = normpath (abspath (cwd w) models_dir)
      in if \<not> startswith path (models_dir_abs @ ''/'') \<and> path \<noteq> models_dir_abs
         then (Inr False, w)
         else if \<not> endswith (lower path) ''.gguf'' then (Inr False, w)
         else if \<not> isfile w path then (Inr False, w)
         else (case os_remove w path of
                 Inl e \<Rightarrow> (Inl e, w)
               | Inr w' \<Rightarrow> (Inr True, w')))"

text \<open>
  What the spec means by a path strictly inside a directory: the components
  of the directory are a proper prefix of the components of the path, and the
  path does not step upwards.
\<close>

definition components :: "string \<Rightarrow> string list" where
  "components p = filter (\<lambda>c. c \<noteq> []) (split_on CHR ''/'' p)"

definition strictly_inside :: "string \<Rightarrow> string \<Rightarrow> bool" where
  "strictly_inside d p =
     (strict_prefix (components d) (components p) \<and> ''..'' \<notin> set (components p))"

section \<open>Floats\<close>

text \<open>
  The quotient \<^verbatim>\<open>a / b\<close> of two integers is the binary64 number nearest to the
  exact quotient, ties going to the even mantissa; \<^verbatim>\<open>OverflowError\<close> when that
  is beyond the largest float. A float is kept as the rational it equals.
\<close>

definition pow2 :: "int \<Rightarrow> rat" where
  "pow2 e = (if 0 \<le> e then 2 ^ nat e else 1 / 2 ^ nat (- e))"

text \<open>The number of binary digits of a natural number.\<close>

fun bits :: "nat \<Rightarrow> nat" where
  "bits n = (if n = 0 then 0 else Suc (bits (n div 2)))"

declare bits.simps [simp del]

text \<open>The exponent \<open>e\<close> of a positive rational \<open>q\<close>: \<open>2 ^ e \<le> q < 2 ^ (e + 1)\<close>.\<close>

definition exponent :: "rat \<Rightarrow> int" where
  "exponent q =
     (let e0 = int (bits (nat (fst (quotient_of q)))) - int (bits (nat (snd (quotient_of q))))
      in if pow2 e0 \<le> q then e0 else e0 - 1)"

definition round_even :: "rat \<Rightarrow> int" where
  "round_even q =
     (let f = \<lfloor>q\<rfloor>; r = q - of_int f
      in if r < 1 / 2 then f
         else if 1 / 2 < r then f + 1
         else if even f then f else f + 1)"

text \<open>
  Rounding to binary64: 53 binary digits, the smallest step \<open>2 ^ - 1074\<close>.
  \<open>None\<close> when the rounded value is \<open>2 ^ 1024\<close> or more.
\<close>

definition round_double :: "rat \<Rightarrow> rat option" where
  "round_double q =
     (if q = 0 then Some 0
      else
        let a = \<bar>q\<bar>;
            u = pow2 (max (exponent a - 52) (- 1074));
            r = of_int (round_even (a / u)) * u
        in if pow2 1024 \<le> r then None
           else Some (if q < 0 then - r else r))"

definition truediv :: "int \<Rightarrow> int \<Rightarrow> py_error + rat" where
  "truediv a b =
     (if b = 0 then Inl (ZeroDivisionError (ustr ''division by zero''))
      else (case round_double (of_int a / of_int b) of
              None \<Rightarrow> Inl (OverflowError (ustr ''integer division result too large for a float''))
            | Some x \<Rightarrow> Inr x))"

section \<open>\<^verbatim>\<open>llama_download.py\<close>: downloading\<close>

text \<open>\<^verbatim>\<open>os.makedirs(d, exist_ok=True)\<close>\<close>

definition makedirs :: "world \<Rightarrow> string \<Rightarrow> py_error + world" where
  "makedirs w d =
     (case os_makedirs w (nodes w) d of
        Inl e \<Rightarrow> Inl e
      | Inr ns \<Rightarrow> Inr (w\<lparr>nodes := ns\<rparr>))"

text \<open>
  \<^verbatim>\<open>open(p, "wb")\<close> creates the file or empties it; \<^verbatim>\<open>f.write(chunk)\<close> appends,
  unless the system refuses.
\<close>

definition open_wb :: "world \<Rightarrow> string \<Rightarrow> py_error + world" where
  "open_wb w p =
     (if isdir w p \<or> p \<in> denied w then Inl (OSError (ustr ''cannot open for writing''))
      else Inr (w\<lparr>nodes := (nodes w)(p \<mapsto> RegFile (clock w) [])\<rparr>))"

definition file_content :: "world \<Rightarrow> string \<Rightarrow> string" where
  "file_content w p = (case nodes w p of Some (RegFile t c) \<Rightarrow> c | _ \<Rightarrow> [])"

definition write_chunk :: "world \<Rightarrow> string \<Rightarrow> string \<Rightarrow> py_error + world" where
  "write_chunk w p chunk =
     (case write_refused w p (length (file_content w p) + length chunk) of
        Some e \<Rightarrow> Inl e
      | None \<Rightarrow> Inr (w\<lparr>nodes := (nodes w)(p \<mapsto> RegFile (clock w) (file_content w p @ chunk))\<rparr>))"

text \<open>
  \<^verbatim>\<open>total = resp.headers.get("Content-Length"); total = int(total) if total else None\<close>
\<close>

definition content_length_total :: "interpreter \<Rightarrow> string option \<Rightarrow> py_error + int option" where
  "content_length_total py h =
     (case h of
        None \<Rightarrow> Inr None
      | Some s \<Rightarrow>
          if s = [] then Inr None
          else (case int_of_string py s of
                  None \<Rightarrow> Inl (ValueError [])
                | Some n \<Rightarrow> Inr (Some n)))"

definition chunk_size :: nat where
  "chunk_size = 1024 * 1024"

text \<open>
  The three arguments of the callback: \<^verbatim>\<open>min(100.0, 100 * size / total)\<close>,
  \<^verbatim>\<open>size / (1024 * 1024)\<close> and \<^verbatim>\<open>total / (1024 * 1024)\<close>.
\<close>

definition progress_args :: "nat \<Rightarrow> int \<Rightarrow> py_error + rat \<times> rat \<times> rat" where
  "progress_args sz t =
     (case truediv (100 * int sz) t of
        Inl e \<Rightarrow> Inl e
      | Inr pct \<Rightarrow>
          (case truediv (int sz) (1024 * 1024) of
             Inl e \<Rightarrow> Inl e
           | Inr mb \<Rightarrow>
               (case truediv t (1024 * 1024) of
                  Inl e \<Rightarrow> Inl e
                | Inr total_mb \<Rightarrow> Inr (min 100 pct, mb, total_mb))))"

text \<open>
  A progress callback is the caller's function: what it does with its
  arguments is the caller's, what the program sees is whether it raises.
\<close>

type_synonym callback = "rat \<times> rat \<times> rat \<Rightarrow> py_error option"

text \<open>
  \<^verbatim>\<open>if progress_callback and total and total > 0: ... progress_callback(pct, mb, total_mb)\<close>.
  The result is the exception that came up, if any, and the world with the
  call recorded.
\<close>

definition report_progress ::
  "callback option \<Rightarrow> int option \<Rightarrow> nat \<Rightarrow> world \<Rightarrow> py_error option \<times> world" where
  "report_progress progress_callback total_len sz w =
     (case progress_callback of
        None \<Rightarrow> (None, w)
      | Some cb \<Rightarrow>
          (case total_len of
             None \<Rightarrow> (None, w)
           | Some t \<Rightarrow>
               if t = 0 \<or> \<not> 0 < t then (None, w)
               else (case progress_args sz t of
                       Inl e \<Rightarrow> (Some e, w)
                     | Inr args \<Rightarrow> (cb args, w\<lparr>progress := progress w @ [args]\<rparr>))))"

text \<open>
  The loop of \<^verbatim>\<open>download_file\<close>. \<open>rest\<close> is the part of the body not yet read;
  \<^verbatim>\<open>resp.read(chunk_size)\<close> takes its first \<open>chunk_size\<close> bytes. When the body is
  used up, the read raises the error of the response if it has one, and
  returns no bytes otherwise. The result is the exception that ended the loop,
  if any, and the world after it.
\<close>

function read_loop ::
  "callback option \<Rightarrow> int option \<Rightarrow> string \<Rightarrow> py_error option \<Rightarrow> string \<Rightarrow> nat \<Rightarrow> world
   \<Rightarrow> py_error option \<times> world" where
  "read_loop progress_callback total_len dest_path err rest sz w =
     (let chunk = take chunk_size rest in
      if chunk = [] then (err, w)
      else
        case write_chunk w dest_path chunk of
          Inl e \<Rightarrow> (Some e, w)
        | Inr w1 \<Rightarrow>
            (case report_progress progress_callback total_len (sz + length chunk) w1 of
               (Some e, w2) \<Rightarrow> (Some e, w2)
             | (None, w2) \<Rightarrow>
                 read_loop progress_callback total_len dest_path err (drop chunk_size rest)
                   (sz + length chunk) w2))"
  by pat_completeness auto
termination
  by (relation "measure (\<lambda>(cb, tl, dest, err, rest, sz, w). length rest)") auto

declare read_loop.simps [simp del]

text \<open>
  \<^verbatim>\<open>download_file\<close>. Building the request and the SSL context and opening the
  URL are one step, whose outcome is the network's.
\<close>

definition download_file ::
  "world \<Rightarrow> string \<Rightarrow> string \<Rightarrow> bool \<Rightarrow> callback option \<Rightarrow> (py_error + bool) \<times> world" where
  "download_file w url dest_path force progress_callback =
     (if isfile w dest_path \<and> \<not> force then (Inr False, w)
      else
        let dest_dir = dirname dest_path in
        case (if dest_dir \<noteq> [] then makedirs w dest_dir else Inr w) of
          Inl e \<Rightarrow> (Inl e, w)
        | Inr w1 \<Rightarrow>
            let w2 = w1\<lparr>requests := requests w1 @ [url]\<rparr> in
            (case net w2 url of
               Inl e \<Rightarrow> (Inl e, w2)
             | Inr resp \<Rightarrow>
                 (case content_length_total (python w2) (content_length resp) of
                    Inl e \<Rightarrow> (Inl e, w2)
                  | Inr total_len \<Rightarrow>
                      (case open_wb w2 dest_path of
                         Inl e \<Rightarrow> (Inl e, w2)
                       | Inr w3 \<Rightarrow>
                           (case read_loop progress_callback total_len dest_path
                                   (read_error resp) (body resp) 0 w3 of
                              (Some e, w4) \<Rightarrow> (Inl e, w4)
                            | (None, w4) \<Rightarrow> (Inr True, w4))))))"

text \<open>
  \<^verbatim>\<open>download_file\<close> of \<^verbatim>\<open>scripts/download_llama_model.py\<close>: the same steps, with
  the directory always created and the progress printed instead of reported.
  What is printed is not part of the model; the numbers printed are computed
  as above, and an exception of theirs ends the loop.
\<close>

definition script_progress :: "int option \<Rightarrow> nat \<Rightarrow> py_error option" where
  "script_progress total_len sz =
     (case total_len of
        None \<Rightarrow> None
      | Some t \<Rightarrow>
          if t = 0 \<or> \<not> 0 < t then None
          else (case progress_args sz t of Inl e \<Rightarrow> Some e | Inr args \<Rightarrow> None))"

function script_read_loop ::
  "int option \<Rightarrow> string \<Rightarrow> py_error option \<Rightarrow> string \<Rightarrow> nat \<Rightarrow> world
   \<Rightarrow> py_error option \<times> world" where
  "script_read_loop total_len dest_path err rest sz w =
     (let chunk = take chunk_size rest in
      if chunk = [] then (err, w)
      else
        case write_chunk w dest_path chunk of
          Inl e \<Rightarrow> (Some e, w)
        | Inr w1 \<Rightarrow>
            (case script_progress total_len (sz + length chunk) of
               Some e \<Rightarrow> (Some e, w1)
             | None \<Rightarrow>
                 script_read_loop total_len dest_path err (drop chunk_size rest)
                   (sz + length chunk) w1))"
  by pat_completeness auto
termination
  by (relation "measure (\<lambda>(tl, dest, err, rest, sz, w). length rest)") auto

declare script_read_loop.simps [simp del]

definition script_download_file ::
  "world \<Rightarrow> string \<Rightarrow> string \<Rightarrow> bool \<Rightarrow> (py_error + bool) \<times> world" where
  "script_download_file w url dest_path force =
     (if isfile w dest_path \<and> \<not> force then (Inr False, w)
      else
        case makedirs w (dirname dest_path) of
          Inl e \<Rightarrow> (Inl e, w)
        | Inr w1 \<Rightarrow>
            let w2 = w1\<lparr>requests := requests w1 @ [url]\<rparr> in
            (case net w2 url of
               Inl e \<Rightarrow> (Inl e, w2)
             | Inr resp \<Rightarrow>
                 (case content_length_total (python w2) (content_length resp) of
                    Inl e \<Rightarrow> (Inl e, w2)
                  | Inr total_len \<Rightarrow>
                      (case open_wb w2 dest_path of
                         Inl e \<Rightarrow> (Inl e, w2)
                       | Inr w3 \<Rightarrow>
                           (case script_read_loop total_len dest_path
                                   (read_error resp) (body resp) 0 w3 of
                              (Some e, w4) \<Rightarrow> (Inl e, w4)
                            | (None, w4) \<Rightarrow> (Inr True, w4))))))"

text \<open>\<^verbatim>\<open>_hf_url(repo, filename, revision="main")\<close>\<close>

definition strip_slashes :: "string \<Rightarrow> string" where
  "strip_slashes s =
     rev (dropWhile (\<lambda>c. c = CHR ''/'') (rev (dropWhile (\<lambda>c. c = CHR ''/'') s)))"

definition hf_url :: "string \<Rightarrow> string \<Rightarrow> string \<Rightarrow> string" where
  "hf_url repo filename revision =
     (let repo1 = strip_slashes (strip repo);
          org = (if CHR ''/'' \<in> set repo1 then takeWhile (\<lambda>c. c \<noteq> CHR ''/'') repo1 else repo1);
          name = (if CHR ''/'' \<in> set repo1 then tl (dropWhile (\<lambda>c. c \<noteq> CHR ''/'') repo1)
                  else repo1)
      in ''https://huggingface.co/'' @ org @ ''/'' @ name @ ''/resolve/'' @ revision
         @ ''/'' @ filename)"

text \<open>
  The destination of \<^verbatim>\<open>download_model\<close>: \<^verbatim>\<open>output_filename or hf_file\<close>, with the
  extension added when it is missing, inside the models directory.
\<close>

definition download_model_dest :: "world \<Rightarrow> string \<Rightarrow> string option \<Rightarrow> string" where
  "download_model_dest w hf_file output_filename =
     (let filename0 = (case output_filename of
                         None \<Rightarrow> hf_file
                       | Some n \<Rightarrow> if n = [] then hf_file else n);
          filename = (if \<not> endswith (lower filename0) ''.gguf'' then filename0 @ ''.gguf''
                      else filename0)
      in join (get_models_dir w) filename)"

text \<open>
  \<^verbatim>\<open>download_model\<close>. The result type \<^verbatim>\<open>str | None\<close> of the source is kept: \<open>None\<close>
  of the option is Python's \<^verbatim>\<open>None\<close>.
\<close>

definition download_model ::
  "world \<Rightarrow> string \<Rightarrow> string \<Rightarrow> bool \<Rightarrow> callback option \<Rightarrow> string option
   \<Rightarrow> (py_error + string option) \<times> world" where
  "download_model w hf_repo hf_file force progress_callback output_filename =
     (let dest_path = download_model_dest w hf_file output_filename
      in if isfile w dest_path \<and> \<not> force then (Inr (Some dest_path), w)
         else
           let url = hf_url hf_repo hf_file ''main'' in
           (case download_file w url dest_path force progress_callback of
              (Inl e, w') \<Rightarrow> (Inl e, w')
            | (Inr b, w') \<Rightarrow> (Inr (Some dest_path), w')))"

section \<open>A world to compute in\<close>

text \<open>
  A small world on which the functions above are evaluated: a models
  directory \<^verbatim>\<open>/u/models\<close> with three files, a server that answers every
  URL with the three bytes \<^verbatim>\<open>xyz\<close>, and an interpreter with the default limit.
\<close>

definition example_python :: interpreter where
  "example_python = \<lparr>int_max_str_digits = 4300, to_decimal = (\<lambda>ch. None)\<rparr>"

definition example_world :: world where
  "example_world =
     \<lparr>nodes = [''/u/models'' \<mapsto> Directory (Some [''x.gguf'', ''old.GGUF'', ''notes.txt'']),
               ''/u/models/x.gguf'' \<mapsto> RegFile 5 ''abc'',
               ''/u/models/old.GGUF'' \<mapsto> RegFile 3 [],
               ''/u/models/notes.txt'' \<mapsto> RegFile 9 []],
      denied = {},
      clock = 10,
      cwd = ''/w'',
      home = ''/h'',
      thonny_user_dir = ''/u'',
      environ = Map.empty,
      python = example_python,
      os_makedirs = (\<lambda>ns d. Inr ns),
      write_refused = (\<lambda>p n. None),
      net = (\<lambda>url. Inr \<lparr>content_length = Some ''3'', body = ''xyz'', read_error = None\<rparr>),
      requests = [],
      progress = []\<rparr>"

section \<open>Theorems\<close>

subsection \<open>Paths\<close>

lemma startswith_prefix: "startswith s p \<longleftrightarrow> prefix p s"
  unfolding startswith_def prefix_def
  by (metis append_eq_conv_conj append_take_drop_id)

lemma endswith_suffix: "endswith s p \<longleftrightarrow> suffix p s"
  unfolding endswith_def suffix_def
  by (metis append_eq_conv_conj append_take_drop_id length_append le_add2 add_diff_cancel_right')

lemma startswith_slash: "startswith s ''/'' \<longleftrightarrow> (\<exists>t. s = CHR ''/'' # t)"
  by (cases s) (auto simp: startswith_def)

lemma split_on_nonempty [simp]: "split_on c s \<noteq> []"
  by (induction s) (auto split: list.splits)

lemma split_on_append: "split_on c (a @ c # b) = split_on c a @ split_on c b"
  by (induction a) (auto split: list.splits)

lemma split_on_single: "c \<notin> set b \<Longrightarrow> split_on c b = [b]"
  by (induction b) (auto split: list.splits)

lemma split_on_free: "x \<in> set (split_on c s) \<Longrightarrow> c \<notin> set x"
  by (induction s arbitrary: x) (auto split: list.splits if_splits)

lemma split_on_singleton: "split_on c s = [y] \<Longrightarrow> y = s"
  by (induction s arbitrary: y) (auto split: list.splits if_splits)

lemma last_split_on_suffix: "suffix (last (split_on c s)) s"
proof (induction s)
  case Nil
  show ?case by simp
next
  case (Cons x s)
  show ?case
  proof (cases "x = c")
    case True
    with Cons show ?thesis by (simp add: suffix_Cons)
  next
    case False
    obtain y ys where sp: "split_on c s = y # ys" by (cases "split_on c s") auto
    show ?thesis
    proof (cases ys)
      case Nil
      with sp have "y = s" by (simp add: split_on_singleton)
      with sp Nil False show ?thesis by simp
    next
      case (Cons z zs)
      with sp \<open>suffix (last (split_on c s)) s\<close> False show ?thesis by (simp add: suffix_Cons)
    qed
  qed
qed

lemma last_split_on_nonempty: "s \<noteq> [] \<Longrightarrow> last s \<noteq> c \<Longrightarrow> last (split_on c s) \<noteq> []"
proof (induction s)
  case Nil
  then show ?case by simp
next
  case (Cons x s)
  show ?case
  proof (cases "s = []")
    case True
    with Cons.prems show ?thesis by simp
  next
    case False
    with Cons have ih: "last (split_on c s) \<noteq> []" by simp
    obtain y ys where sp: "split_on c s = y # ys" by (cases "split_on c s") auto
    with ih show ?thesis by (cases ys) auto
  qed
qed

lemma last_split_on_replicate:
  "last (split_on c (replicate n c @ m)) = last (split_on c m)"
  by (induction n) auto

lemma last_split_on_join:
  assumes "\<not> startswith s ''/''"
  shows "last (split_on CHR ''/'' (join c s)) = last (split_on CHR ''/'' s)"
proof (cases "c = [] \<or> endswith c ''/''")
  case False
  then have "join c s = c @ CHR ''/'' # s" using assms by (simp add: join_def)
  then show ?thesis by (simp add: split_on_append)
next
  case True
  show ?thesis
  proof (cases "c = []")
    case True
    then show ?thesis using assms by (simp add: join_def)
  next
    case False
    with True have "suffix ''/'' c" by (simp add: endswith_suffix)
    then obtain c' where "c = c' @ ''/''" by (auto simp: suffix_def)
    then have "join c s = c' @ CHR ''/'' # s" using assms True by (simp add: join_def)
    then show ?thesis by (simp add: split_on_append)
  qed
qed

lemma join_sep_snoc:
  "join_sep (ys @ [m]) = (if ys = [] then m else join_sep ys @ CHR ''/'' # m)"
  by (induction ys rule: join_sep.induct) auto

lemma last_split_on_normpath:
  assumes m: "last (split_on CHR ''/'' s) = m" and ne: "m \<noteq> []" "m \<noteq> ''.''" "m \<noteq> ''..''"
  shows "last (split_on CHR ''/'' (normpath s)) = m"
proof -
  from m ne have s: "s \<noteq> []" by auto
  define n where "n = initial_slashes_of s"
  define cs where "cs = butlast (split_on CHR ''/'' s)"
  define ys where "ys = foldl (norm_step n) [] cs"
  have sp: "split_on CHR ''/'' s = cs @ [m]"
    unfolding cs_def using m by (metis append_butlast_last_id split_on_nonempty)
  have free: "CHR ''/'' \<notin> set m"
    using split_on_free [of m "CHR ''/''" s] sp by simp
  have fold: "foldl (norm_step n) [] (split_on CHR ''/'' s) = ys @ [m]"
    using ne by (simp add: sp ys_def norm_step_def)
  have nonempty: "replicate n CHR ''/'' @ join_sep (ys @ [m]) \<noteq> []"
    using ne by (simp add: join_sep_snoc)
  have np: "normpath s = replicate n CHR ''/'' @ join_sep (ys @ [m])"
    using s nonempty by (simp add: normpath_def Let_def n_def [symmetric] fold)
  show ?thesis
  proof (cases "ys = []")
    case True
    then show ?thesis
      using free by (simp add: np last_split_on_replicate split_on_single)
  next
    case False
    then have "normpath s = (replicate n CHR ''/'' @ join_sep ys) @ CHR ''/'' # m"
      by (simp add: np join_sep_snoc)
    then show ?thesis
      using free by (simp only: split_on_append) (simp add: split_on_single)
  qed
qed

lemma last_split_on_abspath:
  assumes m: "last (split_on CHR ''/'' s) = m" and ne: "m \<noteq> []" "m \<noteq> ''.''" "m \<noteq> ''..''"
  shows "last (split_on CHR ''/'' (abspath c s)) = m"
proof -
  have "last (split_on CHR ''/'' (if startswith s ''/'' then s else join c s)) = m"
    using m by (simp add: last_split_on_join)
  then show ?thesis
    unfolding abspath_def using ne by (rule last_split_on_normpath)
qed

lemma models_dir_abs_last:
  "last (split_on CHR ''/'' (normpath (abspath c (get_models_dir w)))) = ''models''"
proof -
  have "\<not> startswith ''models'' ''/''" by (simp add: startswith_def)
  then have "last (split_on CHR ''/'' (get_models_dir w)) = ''models''"
    by (simp add: get_models_dir_def last_split_on_join)
  then have "last (split_on CHR ''/'' (abspath c (get_models_dir w))) = ''models''"
    by (rule last_split_on_abspath) simp_all
  then show ?thesis
    by (rule last_split_on_normpath) simp_all
qed

lemma lower_models: "lower ''models'' = ''models''"
  by (simp add: lower_def lower_char_def)

lemma models_dir_abs_not_gguf:
  "\<not> endswith (lower (normpath (abspath c (get_models_dir w)))) ''.gguf''"
proof
  let ?d = "normpath (abspath c (get_models_dir w))"
  assume "endswith (lower ?d) ''.gguf''"
  then have g: "suffix ''.gguf'' (lower ?d)" by (simp add: endswith_suffix)
  have "suffix ''models'' ?d"
    using last_split_on_suffix [of "CHR ''/''" ?d] by (simp add: models_dir_abs_last)
  then obtain pre where "?d = pre @ ''models''" by (auto simp: suffix_def)
  then have "lower ?d = lower pre @ ''models''"
    using lower_models by (simp add: lower_def)
  with g obtain a where "lower pre @ ''models'' = a @ ''.gguf''" by (auto simp: suffix_def)
  then have "last (lower pre @ ''models'') = last (a @ ''.gguf'')" by simp
  then show False by simp
qed

lemma components_replicate: "components (replicate n CHR ''/'' @ s) = components s"
  by (induction n) (auto simp: components_def)

lemma components_append: "components (a @ CHR ''/'' # b) = components a @ components b"
  by (simp add: components_def split_on_append)

lemma components_join_sep:
  "\<forall>c\<in>set cs. c \<noteq> [] \<and> CHR ''/'' \<notin> set c \<Longrightarrow> components (join_sep cs) = cs"
proof (induction cs rule: join_sep.induct)
  case 1
  show ?case by (simp add: components_def)
next
  case (2 x)
  then show ?case by (simp add: components_def split_on_single)
next
  case (3 x y ys)
  then have "components (join_sep (y # ys)) = y # ys" by simp
  moreover have "components x = [x]" using 3 by (simp add: components_def split_on_single)
  ultimately show ?case by (simp add: components_append)
qed

lemma norm_step_clean:
  assumes "0 < n" and "\<forall>c\<in>set acc. c \<noteq> [] \<and> c \<noteq> ''..'' \<and> CHR ''/'' \<notin> set c"
    and "CHR ''/'' \<notin> set x"
  shows "\<forall>c\<in>set (norm_step n acc x). c \<noteq> [] \<and> c \<noteq> ''..'' \<and> CHR ''/'' \<notin> set c"
proof (cases "x = [] \<or> x = ''.''")
  case True
  then have "norm_step n acc x = acc" by (simp add: norm_step_def)
  then show ?thesis using assms(2) by simp
next
  case False
  show ?thesis
  proof (cases "x = ''..''")
    case True
    have "acc \<noteq> [] \<Longrightarrow> last acc \<noteq> ''..''" using assms(2) last_in_set by blast
    then have "norm_step n acc x = (if acc \<noteq> [] then butlast acc else acc)"
      using True assms(1) unfolding norm_step_def by auto
    then show ?thesis using assms(2) by (auto dest: in_set_butlastD)
  next
    case notdd: False
    then have "norm_step n acc x = acc @ [x]"
      using False unfolding norm_step_def by simp
    then show ?thesis using assms(2,3) False notdd by simp
  qed
qed

lemma foldl_norm_step_clean:
  assumes "0 < n" and "\<forall>c\<in>set acc. c \<noteq> [] \<and> c \<noteq> ''..'' \<and> CHR ''/'' \<notin> set c"
    and "\<forall>x\<in>set xs. CHR ''/'' \<notin> set x"
  shows "\<forall>c\<in>set (foldl (norm_step n) acc xs). c \<noteq> [] \<and> c \<noteq> ''..'' \<and> CHR ''/'' \<notin> set c"
  using assms(2,3)
proof (induction xs arbitrary: acc)
  case Nil
  then show ?case by simp
next
  case (Cons x xs)
  have x: "CHR ''/'' \<notin> set x" using Cons.prems(2) by simp
  have step: "\<forall>c\<in>set (norm_step n acc x). c \<noteq> [] \<and> c \<noteq> ''..'' \<and> CHR ''/'' \<notin> set c"
    by (rule norm_step_clean [OF assms(1) Cons.prems(1) x])
  have rest: "\<forall>x\<in>set xs. CHR ''/'' \<notin> set x" using Cons.prems(2) by simp
  show ?case using Cons.IH [OF step rest] by simp
qed

lemma initial_slashes_pos: "startswith x ''/'' \<Longrightarrow> 0 < initial_slashes_of x"
  by (simp add: initial_slashes_of_def)

lemma normpath_absolute:
  assumes "startswith x ''/''"
  shows "startswith (normpath x) ''/''" and "''..'' \<notin> set (components (normpath x))"
proof -
  define n where "n = initial_slashes_of x"
  define cs where "cs = foldl (norm_step n) [] (split_on CHR ''/'' x)"
  have n: "0 < n" using assms by (simp add: n_def initial_slashes_pos)
  have x: "x \<noteq> []" using assms by (auto simp: startswith_def)
  have ne: "replicate n CHR ''/'' @ join_sep cs \<noteq> []" using n by simp
  have np: "normpath x = replicate n CHR ''/'' @ join_sep cs"
    using x ne by (simp add: normpath_def Let_def n_def [symmetric] cs_def [symmetric])
  obtain k where k: "n = Suc k" using n by (cases n) auto
  show "startswith (normpath x) ''/''"
    by (simp add: np k startswith_def)
  have clean: "\<forall>c\<in>set cs. c \<noteq> [] \<and> c \<noteq> ''..'' \<and> CHR ''/'' \<notin> set c"
    unfolding cs_def by (rule foldl_norm_step_clean [OF n]) (auto dest: split_on_free)
  then have "components (normpath x) = cs"
    by (simp add: np components_replicate components_join_sep)
  with clean show "''..'' \<notin> set (components (normpath x))" by auto
qed

lemma abspath_absolute:
  assumes "startswith c ''/''"
  shows "startswith (abspath c p) ''/''"
proof -
  obtain c' where c: "c = CHR ''/'' # c'" using assms by (auto simp: startswith_slash)
  have "startswith (join c p) ''/''" if "\<not> startswith p ''/''"
  proof -
    have "join c p = c @ p \<or> join c p = c @ ''/'' @ p" using that by (simp add: join_def)
    then show ?thesis using c by (auto simp: startswith_def)
  qed
  then have "startswith (if startswith p ''/'' then p else join c p) ''/''" by simp
  then show ?thesis unfolding abspath_def by (rule normpath_absolute(1))
qed

subsection \<open>Deleting a model\<close>

text \<open>
  A path that passes the prefix test and the extension test of \<^verbatim>\<open>delete_model\<close>
  is strictly inside the models directory.
\<close>

lemma checked_path_inside:
  assumes ab: "startswith (cwd w) ''/''"
    and q: "q = normpath (abspath (cwd w) P)"
    and d: "d = normpath (abspath (cwd w) (get_models_dir w))"
    and chk: "startswith q (d @ ''/'') \<or> q = d"
    and ext: "endswith (lower q) ''.gguf''"
  shows "strictly_inside d q"
proof -
  have "q \<noteq> d" using ext models_dir_abs_not_gguf [of "cwd w" w] d by auto
  with chk have "prefix (d @ ''/'') q" by (simp add: startswith_prefix)
  then obtain r where r: "q = d @ CHR ''/'' # r" by (auto simp: prefix_def)
  have "suffix ''.gguf'' (lower q)" using ext by (simp add: endswith_suffix)
  then obtain pre where "lower q = pre @ ''.gguf''" by (auto simp: suffix_def)
  then have lastf: "last (lower q) = CHR ''f''" by simp
  have qne: "q \<noteq> []" using r by simp
  then have "last (lower q) = lower_char (last q)" by (simp add: lower_def last_map)
  with lastf have lq: "lower_char (last q) = CHR ''f''" by simp
  have "lower_char CHR ''/'' = CHR ''/''" by (simp add: lower_char_def)
  with lq have nosl: "last q \<noteq> CHR ''/''" by auto
  have rne: "r \<noteq> []" using nosl r by auto
  then have "last r = last q" using r by simp
  with nosl have "last r \<noteq> CHR ''/''" by simp
  with rne have "last (split_on CHR ''/'' r) \<noteq> []" by (rule last_split_on_nonempty)
  moreover have "last (split_on CHR ''/'' r) \<in> set (split_on CHR ''/'' r)" by simp
  ultimately have "last (split_on CHR ''/'' r) \<in> set (components r)"
    by (simp add: components_def)
  then have cr: "components r \<noteq> []" by auto
  have "components q = components d @ components r" by (simp add: r components_append)
  with cr have sp: "strict_prefix (components d) (components q)"
    by (simp add: strict_prefix_def)
  have "startswith (abspath (cwd w) P) ''/''" using ab by (rule abspath_absolute)
  then have "''..'' \<notin> set (components (normpath (abspath (cwd w) P)))"
    by (rule normpath_absolute(2))
  with sp show ?thesis by (simp add: strictly_inside_def q)
qed

lemma example_world_dirs:
  "cwd example_world = ''/w''"
  "thonny_user_dir example_world = ''/u''"
  "home example_world = ''/h''"
  by (simp_all add: example_world_def)

lemma example_world_nodes:
  "denied example_world = {}"
  "nodes example_world ''/u/models/x.gguf'' = Some (RegFile 5 ''abc'')"
  "nodes example_world ''/u/models/x.gguf/'' = None"
  "nodes example_world ''/u/x.gguf'' = None"
  by (simp_all add: example_world_def)

lemma example_models_dir:
  "normpath (abspath (cwd example_world) (get_models_dir example_world)) = ''/u/models''"
  by (simp add: example_world_dirs get_models_dir_def join_def endswith_def abspath_def
        normpath_def startswith_def initial_slashes_of_def norm_step_def)

lemma example_paths:
  "normpath (abspath (cwd example_world) ''/u/models/x.gguf'') = ''/u/models/x.gguf''"
  "normpath (abspath (cwd example_world) ''/u/models/x.gguf/'') = ''/u/models/x.gguf''"
  "normpath (abspath (cwd example_world) ''/u/models/../x.gguf'') = ''/u/x.gguf''"
  "normpath (abspath (cwd example_world) ''../u/models/./x.gguf'') = ''/u/models/x.gguf''"
  by (simp_all add: example_world_dirs abspath_def normpath_def startswith_def endswith_def
        join_def initial_slashes_of_def norm_step_def)

lemma example_inside:
  "strictly_inside ''/u/models'' ''/u/models/x.gguf''"
  "\<not> strictly_inside ''/u/models'' ''/u/x.gguf''"
  by (simp_all add: strictly_inside_def components_def)

lemma example_gguf:
  "endswith (lower ''/u/models/x.gguf'') ''.gguf''"
  "\<not> endswith (lower ''/u/models/x.gguf/'') ''.gguf''"
  by (simp_all add: endswith_def lower_def lower_char_def)

text \<open>
  C1, as the code has it. Let \<open>q\<close> be the normalised absolute form of the path
  \<open>P\<close> and \<open>d\<close> that of the models directory, the current directory being an
  absolute path. If \<open>q\<close> is not strictly inside \<open>d\<close>, or \<open>q\<close> does not end with
  \<^verbatim>\<open>.gguf\<close> in any mix of cases, or \<open>q\<close> is not an existing regular file, then
  \<^verbatim>\<open>delete_model(P)\<close> returns \<^verbatim>\<open>False\<close>, changes nothing and raises nothing. It
  returns \<^verbatim>\<open>True\<close> only when all three hold, and then exactly the file at \<open>q\<close> is
  removed; it does return \<^verbatim>\<open>True\<close> when \<open>q\<close> passes the three tests of the code and
  the system lets the file be removed. It raises only when all three hold and
  the system refuses the removal, and then nothing is changed.
\<close>

theorem delete_model_safe:
  assumes "startswith (cwd w) ''/''"
    and "q = normpath (abspath (cwd w) P)"
    and "d = normpath (abspath (cwd w) (get_models_dir w))"
  shows "(\<not> (strictly_inside d q \<and> endswith (lower q) ''.gguf'' \<and> isfile w q)
            \<longrightarrow> delete_model w P = (Inr False, w))
     \<and> (fst (delete_model w P) = Inr True
            \<longrightarrow> strictly_inside d q \<and> endswith (lower q) ''.gguf'' \<and> isfile w q
                \<and> snd (delete_model w P) = w\<lparr>nodes := (nodes w)(q := None)\<rparr>)
     \<and> (startswith q (d @ ''/'') \<and> endswith (lower q) ''.gguf'' \<and> isfile w q \<and> q \<notin> denied w
            \<longrightarrow> delete_model w P = (Inr True, w\<lparr>nodes := (nodes w)(q := None)\<rparr>))
     \<and> (\<forall>e. fst (delete_model w P) = Inl e
            \<longrightarrow> strictly_inside d q \<and> endswith (lower q) ''.gguf'' \<and> isfile w q
                \<and> q \<in> denied w \<and> snd (delete_model w P) = w)"
proof -
  have dm: "delete_model w P =
      (if \<not> startswith q (d @ ''/'') \<and> q \<noteq> d then (Inr False, w)
       else if \<not> endswith (lower q) ''.gguf'' then (Inr False, w)
       else if \<not> isfile w q then (Inr False, w)
       else if q \<in> denied w then (Inl (OSError (ustr ''permission denied'')), w)
       else (Inr True, w\<lparr>nodes := (nodes w)(q := None)\<rparr>))"
    unfolding delete_model_def Let_def assms(2) [symmetric] assms(3) [symmetric]
    by (simp add: os_remove_def)
  have inside: "strictly_inside d q"
    if "startswith q (d @ ''/'') \<or> q = d" and "endswith (lower q) ''.gguf''"
    using assms that by (rule checked_path_inside)
  have 1: "\<not> (strictly_inside d q \<and> endswith (lower q) ''.gguf'' \<and> isfile w q)
      \<longrightarrow> delete_model w P = (Inr False, w)"
    using inside by (auto simp: dm)
  have 2: "fst (delete_model w P) = Inr True
      \<longrightarrow> strictly_inside d q \<and> endswith (lower q) ''.gguf'' \<and> isfile w q
          \<and> snd (delete_model w P) = w\<lparr>nodes := (nodes w)(q := None)\<rparr>"
    using inside by (auto simp: dm split: if_splits)
  have 3: "startswith q (d @ ''/'') \<and> endswith (lower q) ''.gguf'' \<and> isfile w q \<and> q \<notin> denied w
      \<longrightarrow> delete_model w P = (Inr True, w\<lparr>nodes := (nodes w)(q := None)\<rparr>)"
    by (simp add: dm)
  have 4: "\<forall>e. fst (delete_model w P) = Inl e
      \<longrightarrow> strictly_inside d q \<and> endswith (lower q) ''.gguf'' \<and> isfile w q
          \<and> q \<in> denied w \<and> snd (delete_model w P) = w"
    using inside by (auto simp: dm split: if_splits)
  show ?thesis by (intro conjI 1 2 3 4)
qed

theorem delete_model_safe_witness:
  "startswith (cwd example_world) ''/''
   \<and> strictly_inside ''/u/models'' ''/u/models/x.gguf''
   \<and> endswith (lower ''/u/models/x.gguf'') ''.gguf''
   \<and> isfile example_world ''/u/models/x.gguf''
   \<and> delete_model example_world ''../u/models/./x.gguf''
       = (Inr True, example_world\<lparr>nodes := (nodes example_world)(''/u/models/x.gguf'' := None)\<rparr>)
   \<and> \<not> strictly_inside ''/u/models'' ''/u/x.gguf''
   \<and> delete_model example_world ''/u/models/../x.gguf'' = (Inr False, example_world)"
proof -
  have ab: "startswith (cwd example_world) ''/''"
    by (simp add: example_world_dirs startswith_def)
  have f: "isfile example_world ''/u/models/x.gguf''"
    by (simp add: isfile_def example_world_nodes)
  have sw: "startswith ''/u/models/x.gguf'' (''/u/models'' @ ''/'')"
    by (simp add: startswith_def)
  have yes: "delete_model example_world ''../u/models/./x.gguf''
      = (Inr True, example_world\<lparr>nodes := (nodes example_world)(''/u/models/x.gguf'' := None)\<rparr>)"
    using delete_model_safe [OF ab example_paths(4) [symmetric] example_models_dir [symmetric],
        THEN conjunct2, THEN conjunct2, THEN conjunct1]
      sw example_gguf(1) f
    by (simp add: example_world_nodes)
  have no: "delete_model example_world ''/u/models/../x.gguf'' = (Inr False, example_world)"
    using delete_model_safe [OF ab example_paths(3) [symmetric] example_models_dir [symmetric],
        THEN conjunct1]
      example_inside(2)
    by simp
  show ?thesis using ab example_inside f yes no example_gguf(1) by simp
qed

text \<open>
  The claim as it was stated reads the extension and the existence on the
  path as it is given. With a slash at its end the path of a model does not
  end with \<^verbatim>\<open>.gguf\<close> and is no regular file for the system, and yet the model
  is deleted, since the code tests the normalised path.
\<close>

theorem delete_model_raw_path_counterexample:
  "\<not> endswith (lower ''/u/models/x.gguf/'') ''.gguf''
   \<and> \<not> isfile example_world ''/u/models/x.gguf/''
   \<and> isfile example_world ''/u/models/x.gguf''
   \<and> delete_model example_world ''/u/models/x.gguf/''
       = (Inr True, example_world\<lparr>nodes := (nodes example_world)(''/u/models/x.gguf'' := None)\<rparr>)"
proof -
  have "delete_model example_world ''/u/models/x.gguf/''
      = (Inr True, example_world\<lparr>nodes := (nodes example_world)(''/u/models/x.gguf'' := None)\<rparr>)"
    unfolding delete_model_def Let_def example_paths example_models_dir
    using example_gguf(1)
    by (simp add: startswith_def isfile_def os_remove_def example_world_nodes)
  then show ?thesis
    using example_gguf(2) by (simp add: isfile_def example_world_nodes)
qed

subsection \<open>The context window\<close>




text \<open>
  Whitespace of \<^verbatim>\<open>str.strip\<close> that \<^verbatim>\<open>int\<close> does not skip (FS and US), whitespace
  outside ASCII that it does skip (NBSP), digits of another script when the
  interpreter's database knows them (ARABIC-INDIC DIGIT THREE is U+0663), and
  the limit on the number of digits.
\<close>

lemma int_of_unicode_fs_us:
  "int_of_unicode py ([28] @ ustr ''2048'' @ [31]) = None"
  by (simp add: int_of_unicode_def to_ascii_def ustr_def long_from_string_def py_isspace_def
        digit_val_def char_of_def bit_0)

lemma int_of_unicode_nbsp:
  "int_of_unicode py ([160] @ ustr ''2048'') = Some 2048"
  by (simp add: int_of_unicode_def to_ascii_def ustr_def long_from_string_def py_isspace_def
        digit_val_def unicode_isspace_def char_of_def bit_0)

lemma int_of_unicode_arabic:
  "to_decimal py 1635 = Some 3 \<Longrightarrow> int_of_unicode py [1635, 48, 48, 48] = Some 3000"
  by (simp add: int_of_unicode_def to_ascii_def long_from_string_def py_isspace_def
        digit_val_def unicode_isspace_def char_of_def bit_0)

lemma long_from_string_limit:
  "long_from_string 4300 (replicate 4301 CHR ''9'') = None"
proof -
  define t where "t = replicate 4300 CHR ''9''"
  have n: "(4301::nat) = Suc 4300" by simp
  have s: "replicate 4301 CHR ''9'' = CHR ''9'' # t"
    unfolding n t_def by (rule replicate_Suc)
  have "rev (replicate 4301 CHR ''9'') = replicate 4301 CHR ''9''" by (rule rev_replicate)
  then have r: "rev t @ [CHR ''9''] = CHR ''9'' # t" unfolding s by simp
  have len: "length (filter (\<lambda>d. d \<noteq> CHR ''_'') t) = 4300" by (simp add: t_def)
  have "long_from_string 4300 (CHR ''9'' # t) = None"
    by (simp add: long_from_string_def py_isspace_def r len Let_def split: option.splits)
  then show ?thesis by (simp only: s)
qed


lemma py_int_str_cases:
  "py_int py (PyStr s) = Inl (ValueError []) \<or> (\<exists>n. py_int py (PyStr s) = Inr n)"
  by (simp split: option.splits)




end
